theory Spec2Isabelle
  imports Main
begin

section \<open>JavaScript values and built-ins used by \<open>prepack-cli.js\<close>\<close>

text \<open>
  A JavaScript string is a \<open>string\<close> of 8-bit code units; a variable that may hold
  \<open>undefined\<close> is an \<open>option\<close> (\<open>None\<close> is \<open>undefined\<close>). A number is either
  \<open>NaN\<close> or an integer: the command line only ever produces \<open>parseInt\<close> results and
  their products with 1000, which are exact below \<open>2 ^ 53\<close>.
\<close>

datatype js_number = NaN | Num int

text \<open>Truthiness of a string-or-undefined value: \<open>undefined\<close> and \<open>""\<close> are falsy.\<close>

definition truthy :: "string option \<Rightarrow> bool" where
  "truthy v = (case v of None \<Rightarrow> False | Some s \<Rightarrow> s \<noteq> [])"

text \<open>A value inside a template literal: \<open>undefined\<close> prints as the word.\<close>

definition template :: "string option \<Rightarrow> string" where
  "template v = (case v of None \<Rightarrow> ''undefined'' | Some s \<Rightarrow> s)"

definition startsWith :: "string \<Rightarrow> string \<Rightarrow> bool" where
  "startsWith s p = (take (length p) s = p)"

text \<open>\<open>line.split(",")\<close>: the empty string splits into one empty piece.\<close>

primrec split_comma :: "string \<Rightarrow> string list" where
  "split_comma [] = [[]]"
| "split_comma (c # cs) =
     (if c = CHR '','' then [] # split_comma cs
      else (case split_comma cs of [] \<Rightarrow> [[c]] | w # ws \<Rightarrow> (c # w) # ws))"

subsection \<open>\<open>isNaN\<close> of a string: the StringNumericLiteral grammar\<close>

text \<open>
  \<open>isNaN(v)\<close> converts \<open>v\<close> with \<open>Number\<close>. For a string the result is \<open>NaN\<close> exactly
  when the string, with white space trimmed at both ends, is neither empty nor a
  StrNumericLiteral of ECMAScript: a signed decimal literal (\<open>Infinity\<close>, digits with
  an optional fraction and exponent) or an unsigned binary, octal or hexadecimal
  integer literal. \<open>Number(undefined)\<close> is \<open>NaN\<close>.
\<close>

text \<open>
  The white space and line terminators among the 8-bit code units: TAB, LF, VT, FF, CR,
  SP and NBSP.
\<close>

definition StrWhiteSpaceChar :: "char \<Rightarrow> bool" where
  "StrWhiteSpaceChar c = ((of_char c :: nat) \<in> {9, 10, 11, 12, 13, 32, 160})"

definition DecimalDigit :: "char \<Rightarrow> bool" where
  "DecimalDigit c = (c \<in> set ''0123456789'')"

definition HexDigit :: "char \<Rightarrow> bool" where
  "HexDigit c = (c \<in> set ''0123456789abcdefABCDEF'')"

definition OctalDigit :: "char \<Rightarrow> bool" where
  "OctalDigit c = (c \<in> set ''01234567'')"

definition BinaryDigit :: "char \<Rightarrow> bool" where
  "BinaryDigit c = (c \<in> set ''01'')"

definition DecimalDigits :: "string \<Rightarrow> bool" where
  "DecimalDigits s = (s \<noteq> [] \<and> list_all DecimalDigit s)"

definition SignedInteger :: "string \<Rightarrow> bool" where
  "SignedInteger s =
     (case s of
        [] \<Rightarrow> False
      | c # r \<Rightarrow> if c = CHR ''+'' \<or> c = CHR ''-'' then DecimalDigits r else DecimalDigits s)"

definition ExponentPart_opt :: "string \<Rightarrow> bool" where
  "ExponentPart_opt s =
     (case s of
        [] \<Rightarrow> True
      | c # r \<Rightarrow> (c = CHR ''e'' \<or> c = CHR ''E'') \<and> SignedInteger r)"

definition StrUnsignedDecimalLiteral :: "string \<Rightarrow> bool" where
  "StrUnsignedDecimalLiteral s =
     (s = ''Infinity'' \<or>
      (let ip = takeWhile DecimalDigit s; r = dropWhile DecimalDigit s in
       case r of
         [] \<Rightarrow> ip \<noteq> []
       | c # r' \<Rightarrow>
           if c = CHR ''.''
           then (let fp = takeWhile DecimalDigit r'; r'' = dropWhile DecimalDigit r' in
                 \<not> (ip = [] \<and> fp = []) \<and> ExponentPart_opt r'')
           else ip \<noteq> [] \<and> ExponentPart_opt r))"

definition StrDecimalLiteral :: "string \<Rightarrow> bool" where
  "StrDecimalLiteral s =
     (case s of
        [] \<Rightarrow> False
      | c # r \<Rightarrow>
          if c = CHR ''+'' \<or> c = CHR ''-'' then StrUnsignedDecimalLiteral r
          else StrUnsignedDecimalLiteral s)"

definition NonDecimalIntegerLiteral :: "string \<Rightarrow> bool" where
  "NonDecimalIntegerLiteral s =
     (case s of
        z # x # r \<Rightarrow>
          z = CHR ''0'' \<and> r \<noteq> [] \<and>
          (if x = CHR ''x'' \<or> x = CHR ''X'' then list_all HexDigit r
           else if x = CHR ''o'' \<or> x = CHR ''O'' then list_all OctalDigit r
           else if x = CHR ''b'' \<or> x = CHR ''B'' then list_all BinaryDigit r
           else False)
      | _ \<Rightarrow> False)"

definition trim :: "string \<Rightarrow> string" where
  "trim s = rev (dropWhile StrWhiteSpaceChar (rev (dropWhile StrWhiteSpaceChar s)))"

definition StringNumericLiteral :: "string \<Rightarrow> bool" where
  "StringNumericLiteral s =
     (let t = trim s in t = [] \<or> StrDecimalLiteral t \<or> NonDecimalIntegerLiteral t)"

definition isNaN :: "string option \<Rightarrow> bool" where
  "isNaN v = (case v of None \<Rightarrow> True | Some s \<Rightarrow> \<not> StringNumericLiteral s)"

subsection \<open>\<open>parseInt(s, 10)\<close>\<close>

text \<open>
  \<open>parseInt\<close> skips leading white space, reads an optional sign, and takes the longest
  prefix of decimal digits of what follows; with no digit there the result is \<open>NaN\<close>.
\<close>

definition digit_value :: "char \<Rightarrow> int" where
  "digit_value c = int (of_char c) - 48"

definition decimal_value :: "string \<Rightarrow> int" where
  "decimal_value ds = foldl (\<lambda>a c. 10 * a + digit_value c) 0 ds"

definition parseInt10 :: "string \<Rightarrow> js_number" where
  "parseInt10 s =
     (let t = dropWhile StrWhiteSpaceChar s;
          sign = (case t of [] \<Rightarrow> 1 | c # _ \<Rightarrow> if c = CHR ''-'' then - 1 else 1);
          u = (case t of [] \<Rightarrow> [] | c # r \<Rightarrow> if c = CHR ''+'' \<or> c = CHR ''-'' then r else t);
          z = takeWhile DecimalDigit u
      in if z = [] then NaN else Num (sign * decimal_value z))"

definition times1000 :: "js_number \<Rightarrow> js_number" where
  "times1000 n = (case n of NaN \<Rightarrow> NaN | Num i \<Rightarrow> Num (i * 1000))"

section \<open>Data of a run\<close>

subsection \<open>Flags\<close>

text \<open>
  The object \<open>flags\<close> of \<open>run\<close>, one field per key, in the order of the object
  literal. \<open>reactOutput\<close> starts as a string and becomes \<open>true\<close> when the command
  line names it. \<open>inherited\<close> lists the own properties that the default branch of the
  switch creates for names found on the prototype of the object (see \<open>in_flags\<close>).
\<close>

datatype react_output = ReactOutput string | ReactOutputTrue

record flags =
  initializeMoreModules :: bool
  trace :: bool
  debugNames :: bool
  omitInvariants :: bool
  inlineExpressions :: bool
  simpleClosures :: bool
  abstractEffectsInAdditionalFunctions :: bool
  logStatistics :: bool
  logModules :: bool
  delayInitializations :: bool
  delayUnsupportedRequires :: bool
  accelerateUnsupportedRequires :: bool
  internalDebug :: bool
  debugScopes :: bool
  serialize :: bool
  residual :: bool
  check :: bool
  profile :: bool
  reactEnabled :: bool
  reactOutput :: react_output
  inherited :: "string list"

definition initial_flags :: flags where
  "initial_flags =
     \<lparr>initializeMoreModules = False, trace = False, debugNames = False,
      omitInvariants = False, inlineExpressions = False, simpleClosures = False,
      abstractEffectsInAdditionalFunctions = False, logStatistics = False,
      logModules = False, delayInitializations = False, delayUnsupportedRequires = False,
      accelerateUnsupportedRequires = True, internalDebug = False, debugScopes = False,
      serialize = False, residual = False, check = False, profile = False,
      reactEnabled = False, reactOutput = ReactOutput ''create-element'',
      inherited = []\<rparr>"

definition flag_names :: "string list" where
  "flag_names =
     [''initializeMoreModules'', ''trace'', ''debugNames'', ''omitInvariants'',
      ''inlineExpressions'', ''simpleClosures'', ''abstractEffectsInAdditionalFunctions'',
      ''logStatistics'', ''logModules'', ''delayInitializations'',
      ''delayUnsupportedRequires'', ''accelerateUnsupportedRequires'', ''internalDebug'',
      ''debugScopes'', ''serialize'', ''residual'', ''check'', ''profile'', ''reactEnabled'',
      ''reactOutput'']"

text \<open>
  The property names every object literal inherits from \<open>Object.prototype\<close>: the
  operator \<open>in\<close> finds them as well as the object's own keys.
\<close>

definition Object_prototype_names :: "string list" where
  "Object_prototype_names =
     [''constructor'', ''__defineGetter__'', ''__defineSetter__'', ''hasOwnProperty'',
      ''__lookupGetter__'', ''__lookupSetter__'', ''isPrototypeOf'',
      ''propertyIsEnumerable'', ''toString'', ''valueOf'', ''__proto__'',
      ''toLocaleString'']"

text \<open>\<open>arg in flags\<close>\<close>

definition in_flags :: "string \<Rightarrow> flags \<Rightarrow> bool" where
  "in_flags arg fl =
     (arg \<in> set flag_names \<or> arg \<in> set (inherited fl) \<or> arg \<in> set Object_prototype_names)"

text \<open>
  \<open>flags[arg] = true\<close>, for an \<open>arg\<close> that is \<open>in flags\<close>. Assigning \<open>true\<close> to
  \<open>__proto__\<close> changes nothing; assigning to another inherited name creates an own
  property.
\<close>

definition set_flag :: "string \<Rightarrow> flags \<Rightarrow> flags" where
  "set_flag arg fl =
     (if arg = ''initializeMoreModules'' then fl\<lparr>initializeMoreModules := True\<rparr>
      else if arg = ''trace'' then fl\<lparr>trace := True\<rparr>
      else if arg = ''debugNames'' then fl\<lparr>debugNames := True\<rparr>
      else if arg = ''omitInvariants'' then fl\<lparr>omitInvariants := True\<rparr>
      else if arg = ''inlineExpressions'' then fl\<lparr>inlineExpressions := True\<rparr>
      else if arg = ''simpleClosures'' then fl\<lparr>simpleClosures := True\<rparr>
      else if arg = ''abstractEffectsInAdditionalFunctions''
        then fl\<lparr>abstractEffectsInAdditionalFunctions := True\<rparr>
      else if arg = ''logStatistics'' then fl\<lparr>logStatistics := True\<rparr>
      else if arg = ''logModules'' then fl\<lparr>logModules := True\<rparr>
      else if arg = ''delayInitializations'' then fl\<lparr>delayInitializations := True\<rparr>
      else if arg = ''delayUnsupportedRequires'' then fl\<lparr>delayUnsupportedRequires := True\<rparr>
      else if arg = ''accelerateUnsupportedRequires''
        then fl\<lparr>accelerateUnsupportedRequires := True\<rparr>
      else if arg = ''internalDebug'' then fl\<lparr>internalDebug := True\<rparr>
      else if arg = ''debugScopes'' then fl\<lparr>debugScopes := True\<rparr>
      else if arg = ''serialize'' then fl\<lparr>serialize := True\<rparr>
      else if arg = ''residual'' then fl\<lparr>residual := True\<rparr>
      else if arg = ''check'' then fl\<lparr>check := True\<rparr>
      else if arg = ''profile'' then fl\<lparr>profile := True\<rparr>
      else if arg = ''reactEnabled'' then fl\<lparr>reactEnabled := True\<rparr>
      else if arg = ''reactOutput'' then fl\<lparr>reactOutput := ReactOutputTrue\<rparr>
      else if arg = ''__proto__'' \<or> arg \<in> set (inherited fl) then fl
      else fl\<lparr>inherited := inherited fl @ [arg]\<rparr>)"

text \<open>\<open>Object.keys(flags)\<close>\<close>

definition flag_keys :: "flags \<Rightarrow> string list" where
  "flag_keys fl = flag_names @ inherited fl"

subsection \<open>The variables of \<open>run\<close> and the resolved options\<close>

text \<open>
  \<open>option_values\<close> holds what the local variables of \<open>run\<close> and the object
  \<open>resolvedOptions\<close> have under one name. \<open>variables\<close> adds the locals that the
  options do not carry, \<open>options\<close> the keys \<open>resolvedOptions\<close> adds;
  \<open>Object.assign\<close> copies the flags into the options, here as the field \<open>flags\<close>.
  The key \<open>errorHandler\<close> is the function \<open>errorHandler\<close> below.
\<close>

record option_values =
  compatibility :: "string option"
  mathRandomSeed :: "string option"
  maxStackDepth :: "js_number option"
  timeout :: "js_number option"
  additionalFunctions :: "string list option"
  lazyObjectsRuntime :: "string option"
  debugInFilePath :: "string option"
  debugOutFilePath :: "string option"
  flags :: flags

record variables = option_values +
  inputFilenames :: "string list"
  outputFilename :: "string option"
  inputSourceMap :: "string option"
  outputSourceMap :: "string option"
  statsFileName :: "string option"
  heapGraphFilePath :: "string option"

record options = option_values +
  inputSourceMapFilename :: "string option"
  sourceMaps :: bool
  heapGraphFormat :: string

definition initial_variables :: variables where
  "initial_variables =
     \<lparr>compatibility = None, mathRandomSeed = None, maxStackDepth = None, timeout = None,
      additionalFunctions = None, lazyObjectsRuntime = None, debugInFilePath = None,
      debugOutFilePath = None, flags = initial_flags, inputFilenames = [],
      outputFilename = None, inputSourceMap = None, outputSourceMap = None,
      statsFileName = None, heapGraphFilePath = None\<rparr>"

subsection \<open>Diagnostics, results and failures of the engine\<close>

text \<open>
  A source location is an object: \<open>loc_id\<close> is its identity, so that equality of
  locations is the identity the \<open>Map\<close> of diagnostics compares keys by. Two location
  objects with the same text and position are two values.
\<close>

record source_location =
  loc_id :: nat
  source :: "string option"
  start_line :: nat
  start_column :: nat

record CompilerDiagnostic =
  location :: "source_location option"
  severity :: string
  errorCode :: string
  message :: string
  callStack :: "string option"

text \<open>
  A value that \<open>JSON.stringify\<close> turns into text: an object with named members, or a
  value of the engine that the command line passes on unread.
\<close>

datatype json = Opaque string | Object "(string \<times> json) list"

datatype file_data = Text string | Stringified json

text \<open>
  The engine's result. \<open>statistics\<close> and \<open>timingStats\<close> are \<open>None\<close> when
  \<open>undefined\<close>; \<open>srcmap\<close> (the key \<open>map\<close>) and \<open>heapGraph\<close> are \<open>None\<close> when absent.
\<close>

record SerializedResult =
  code :: string
  statistics :: "json option"
  timingStats :: "json option"
  srcmap :: "json option"
  heapGraph :: "string option"

text \<open>
  What can be thrown: the engine's \<open>FatalError\<close>, the error of a failed \<open>invariant\<close>
  with its message, the \<open>TypeError\<close> of a method call on \<open>undefined\<close>, and any other
  error of the engine, with its text.
\<close>

datatype exn = FatalError | InvariantViolation string | TypeError | Error string

definition instanceof_FatalError :: "exn \<Rightarrow> bool" where
  "instanceof_FatalError e = (e = FatalError)"

datatype 'a completion = Normal 'a | ProcessExit nat | Throw exn

datatype 'a engine_result = Returns 'a | Throws exn

text \<open>
  The engine is outside the program. A call of \<open>prepackFileSync\<close> reports diagnostics
  to the error handler and then returns a result or throws. A call of \<open>prepackStdin\<close>
  may report diagnostics and throw before it returns; after it has returned, the engine
  reads the input, reports diagnostics and calls the continuation once, with an error
  or a result.
\<close>

record stdin_behaviour =
  sync_diagnostics :: "CompilerDiagnostic list"
  sync_result :: "unit engine_result"
  async_diagnostics :: "CompilerDiagnostic list"
  callback_err :: "exn option"
  callback_serialized :: "SerializedResult option"

record env =
  CompatibilityValues :: "string list"
  version :: string
  heapStatistics :: json
  prepackFileSync :: "string list \<Rightarrow> options \<Rightarrow>
      CompilerDiagnostic list \<times> SerializedResult option engine_result"
  prepackStdin :: "options \<Rightarrow> stdin_behaviour"

text \<open>
  What a run does that can be seen from outside, in order: lines on the console, files
  written, calls of the engine. The usage text of \<open>--help\<close> is one event that carries
  its two computed parts, the compatibility values and the keys of \<open>flags\<close>.
\<close>

datatype event =
    ConsoleLog string
  | ConsoleLogUsage "string list" "string list"
  | ConsoleError string
  | ConsoleErrorStack exn
  | ConsoleErrorValue exn
  | WriteFileSync string file_data
  | CallPrepackStdin options
  | CallPrepackFileSync "string list" options

text \<open>
  How a run ends: \<open>run\<close> returns \<open>true\<close> or \<open>undefined\<close> (exit status 0), the process
  exits with a status, or an error is thrown that nothing catches.
\<close>

datatype outcome = ReturnTrue | ReturnUndefined | Exit nat | Uncaught exn

section \<open>The argument parser\<close>

text \<open>\<open>args.shift()\<close> gives \<open>undefined\<close> on the empty array and leaves it empty.\<close>

definition shift :: "string list \<Rightarrow> string option" where
  "shift args = (case args of [] \<Rightarrow> None | a # _ \<Rightarrow> Some a)"

definition array_includes :: "string list \<Rightarrow> string option \<Rightarrow> bool" where
  "array_includes vs v = (case v of None \<Rightarrow> False | Some a \<Rightarrow> a \<in> set vs)"

text \<open>
  One round of the \<open>switch\<close> over an option name \<open>arg\<close> (the token without its
  \<open>--\<close>). \<open>next\<close> is what \<open>args.shift()\<close> gives in the branches that call it.
  \<open>Shifted\<close>: the branch took the next token; \<open>Toggled\<close>: it did not;
  \<open>Stopped\<close>: the run ends here.
\<close>

datatype step = Shifted variables | Toggled variables | Stopped "event list" outcome

definition parse_option :: "env \<Rightarrow> string \<Rightarrow> string option \<Rightarrow> variables \<Rightarrow> step" where
  "parse_option e arg next st =
     (if arg = ''out'' then Shifted (st\<lparr>outputFilename := next\<rparr>)
      else if arg = ''compatibility'' then
        (if \<not> array_includes (CompatibilityValues e) next
         then Stopped [ConsoleError (''Unsupported compatibility: '' @ template next)] (Exit 1)
         else Shifted (st\<lparr>compatibility := next\<rparr>))
      else if arg = ''mathRandomSeed'' then Shifted (st\<lparr>mathRandomSeed := next\<rparr>)
      else if arg = ''srcmapIn'' then Shifted (st\<lparr>inputSourceMap := next\<rparr>)
      else if arg = ''srcmapOut'' then Shifted (st\<lparr>outputSourceMap := next\<rparr>)
      else if arg = ''statsFile'' then Shifted (st\<lparr>statsFileName := next\<rparr>)
      else if arg = ''maxStackDepth'' then
        (if isNaN next
         then Stopped [ConsoleError ''Stack depth value must be a number''] (Exit 1)
         else Shifted (st\<lparr>maxStackDepth := Some (parseInt10 (template next))\<rparr>))
      else if arg = ''timeout'' then
        (if isNaN next
         then Stopped [ConsoleError ''Timeout must be a number''] (Exit 1)
         else Shifted (st\<lparr>timeout := Some (times1000 (parseInt10 (template next)))\<rparr>))
      else if arg = ''additionalFunctions'' then
        (case next of
           None \<Rightarrow> Stopped [] (Uncaught TypeError)
         | Some line \<Rightarrow> Shifted (st\<lparr>additionalFunctions := Some (split_comma line)\<rparr>))
      else if arg = ''debugInFilePath'' then Shifted (st\<lparr>debugInFilePath := next\<rparr>)
      else if arg = ''debugOutFilePath'' then Shifted (st\<lparr>debugOutFilePath := next\<rparr>)
      else if arg = ''lazyObjectsRuntime'' then Shifted (st\<lparr>lazyObjectsRuntime := next\<rparr>)
      else if arg = ''heapGraphFilePath'' then Shifted (st\<lparr>heapGraphFilePath := next\<rparr>)
      else if arg = ''help'' then
        Stopped [ConsoleLogUsage (CompatibilityValues e) (flag_keys (flags st))] ReturnUndefined
      else if arg = ''version'' then Stopped [ConsoleLog (version e)] ReturnUndefined
      else if in_flags arg (flags st) then Toggled (st\<lparr>flags := set_flag arg (flags st)\<rparr>)
      else Stopped [ConsoleError (''Unknown option: '' @ arg)] (Exit 1))"

text \<open>The loop \<open>while (args.length)\<close>.\<close>

datatype parsed = Parsed variables | ParseStopped "event list" outcome

fun parse_args :: "env \<Rightarrow> string list \<Rightarrow> variables \<Rightarrow> parsed" where
  "parse_args e [] st = Parsed st"
| "parse_args e (arg # args) st =
     (if \<not> startsWith arg ''--''
      then parse_args e args (st\<lparr>inputFilenames := inputFilenames st @ [arg]\<rparr>)
      else (case parse_option e (drop 2 arg) (shift args) st of
              Shifted st' \<Rightarrow> parse_args e (tl args) st'
            | Toggled st' \<Rightarrow> parse_args e args st'
            | Stopped evs out \<Rightarrow> ParseStopped evs out))"

section \<open>The options resolver\<close>

text \<open>Lines 192 to 196: the default mode, then the check mode.\<close>

definition resolve_modes :: "flags \<Rightarrow> flags" where
  "resolve_modes fl =
     (let fl1 = (if \<not> serialize fl \<and> \<not> residual fl then fl\<lparr>serialize := True\<rparr> else fl)
      in if check fl1 then fl1\<lparr>serialize := False, residual := False\<rparr> else fl1)"

definition resolvedOptions :: "variables \<Rightarrow> options" where
  "resolvedOptions st =
     \<lparr>compatibility = compatibility st, mathRandomSeed = mathRandomSeed st,
      maxStackDepth = maxStackDepth st, timeout = timeout st,
      additionalFunctions = additionalFunctions st,
      lazyObjectsRuntime = lazyObjectsRuntime st, debugInFilePath = debugInFilePath st,
      debugOutFilePath = debugOutFilePath st, flags = flags st,
      inputSourceMapFilename = inputSourceMap st,
      sourceMaps = truthy (outputSourceMap st), heapGraphFormat = ''DotLanguage''\<rparr>"

text \<open>
  The condition of lines 216 to 219. An array is truthy, so \<open>additionalFunctions\<close> counts
  whenever it is defined.
\<close>

definition lazy_conflict :: "variables \<Rightarrow> options \<Rightarrow> bool" where
  "lazy_conflict st opts =
     (truthy (lazyObjectsRuntime st) \<and>
      ((case additionalFunctions opts of None \<Rightarrow> False | Some _ \<Rightarrow> True) \<or>
       delayInitializations (flags opts) \<or> inlineExpressions (flags opts)))"

section \<open>The diagnostic collector\<close>

text \<open>
  The \<open>Map\<close> \<open>errors\<close>, in insertion order. \<open>Map.set\<close> on a key that is present
  replaces the value where it stands; keys are compared by identity.
\<close>

type_synonym store = "(source_location \<times> CompilerDiagnostic) list"

fun map_set :: "source_location \<Rightarrow> CompilerDiagnostic \<Rightarrow> store \<Rightarrow> store" where
  "map_set k v [] = [(k, v)]"
| "map_set k v ((k', v') # m) =
     (if k' = k then (k', v) # m else (k', v') # map_set k v m)"

definition errorHandler :: "store \<Rightarrow> CompilerDiagnostic \<Rightarrow> string \<times> store" where
  "errorHandler errors diagnostic =
     (case location diagnostic of
        Some loc \<Rightarrow> (''Recover'', map_set loc diagnostic errors)
      | None \<Rightarrow> (''Recover'', errors))"

text \<open>The engine reports diagnostics one at a time.\<close>

definition report :: "store \<Rightarrow> CompilerDiagnostic list \<Rightarrow> store" where
  "report errors ds = foldl (\<lambda>m d. snd (errorHandler m d)) errors ds"

text \<open>A line or column number in a template literal.\<close>

function show_nat :: "nat \<Rightarrow> string" where
  "show_nat n =
     (if n < 10 then [char_of (48 + n)]
      else show_nat (n div 10) @ [char_of (48 + n mod 10)])"
  by pat_completeness auto
termination
  by (relation "measure (\<lambda>n. n)") auto

declare show_nat.simps [simp del]

definition sourceMessage :: "source_location \<Rightarrow> string" where
  "sourceMessage loc =
     (if source loc = Some '''' then ''In an unknown source file''
      else if source loc = Some ''no-filename-specified'' then ''In stdin''
      else ''In input file '' @ (case source loc of None \<Rightarrow> '''' | Some s \<Rightarrow> s))"

definition diagnostic_line :: "source_location \<Rightarrow> CompilerDiagnostic \<Rightarrow> string" where
  "diagnostic_line loc error =
     sourceMessage loc @ ''('' @ show_nat (start_line loc) @ '':'' @
     show_nat (start_column loc + 1) @ '') '' @ severity error @ '' '' @ errorCode error @
     '': '' @ message error @ '' (https://github.com/facebook/prepack/wiki/'' @
     errorCode error @ '')''"

text \<open>
  The body of \<open>for (let [loc, error] of errors)\<close>, with \<open>foundFatal\<close> so far:
  the new \<open>foundFatal\<close> and the lines printed.
\<close>

definition print_entry ::
  "bool \<Rightarrow> source_location \<Rightarrow> CompilerDiagnostic \<Rightarrow> bool \<times> event list" where
  "print_entry foundFatal loc error =
     (let foundFatal' = (foundFatal \<or> severity error = ''FatalError'')
      in (foundFatal',
          ConsoleError (diagnostic_line loc error) #
          (if foundFatal'
           then [ConsoleError (case callStack error of None \<Rightarrow> '''' | Some s \<Rightarrow> s)]
           else [])))"

fun print_entries :: "bool \<Rightarrow> store \<Rightarrow> bool \<times> event list" where
  "print_entries foundFatal [] = (foundFatal, [])"
| "print_entries foundFatal ((loc, error) # rest) =
     (let (foundFatal', evs) = print_entry foundFatal loc error;
          (found, evs') = print_entries foundFatal' rest
      in (found, evs @ evs'))"

definition printDiagnostics :: "store \<Rightarrow> bool \<times> event list" where
  "printDiagnostics errors =
     (if length errors > 0
      then (let (found, evs) = print_entries False errors
            in (found, ConsoleError ''Errors found while prepacking'' # evs))
      else (False, []))"

section \<open>The result writer\<close>

text \<open>
  Modelled from the spec: \<open>invariant\<close> (the module \<open>./invariant\<close> is not among the
  sources). A condition that holds passes; one that fails halts with an
  internal-consistency failure, an error that carries the message given.
\<close>

definition invariant :: "bool \<Rightarrow> string \<Rightarrow> unit completion" where
  "invariant condition format =
     (if condition then Normal () else Throw (InvariantViolation format))"

text \<open>
  The body of \<open>if (serialized)\<close>, lines 302 to 329, with its two early returns.
  A path is used where it is truthy; writing a file is taken to succeed.
\<close>

definition write_serialized ::
  "env \<Rightarrow> variables \<Rightarrow> SerializedResult \<Rightarrow> event list \<times> unit completion" where
  "write_serialized e st serialized =
     (if code serialized = '''' then ([ConsoleError ''Prepack returned empty code.''], Normal ())
      else
        (let out = (if truthy (outputFilename st)
                    then [ConsoleLog (''Prepacked source code written to '' @
                                      template (outputFilename st) @ ''.''),
                          WriteFileSync (template (outputFilename st)) (Text (code serialized))]
                    else [ConsoleLog (code serialized)]) in
         if truthy (statsFileName st) \<and>
            (statistics serialized = None \<or> timingStats serialized = None)
         then (out, Normal ())
         else
           (let stats = (if truthy (statsFileName st)
                         then (case (statistics serialized, timingStats serialized) of
                                 (Some s, Some t) \<Rightarrow>
                                   [WriteFileSync (template (statsFileName st))
                                      (Stringified (Object
                                         [(''SerializerStatistics'', s),
                                          (''TimingStatistics'', t),
                                          (''MemoryStatistics'', heapStatistics e)]))]
                               | _ \<Rightarrow> [])
                         else []);
                smap = (if truthy (outputSourceMap st)
                        then [WriteFileSync (template (outputSourceMap st))
                                (case srcmap serialized of
                                   Some m \<Rightarrow> Stringified m
                                 | None \<Rightarrow> Text '''')]
                        else [])
            in if truthy (heapGraphFilePath st)
               then (case invariant (truthy (heapGraph serialized)) '''' of
                       Normal _ \<Rightarrow>
                         (out @ stats @ smap @
                          [WriteFileSync (template (heapGraphFilePath st))
                             (Text (template (heapGraph serialized)))],
                          Normal ())
                     | ProcessExit n \<Rightarrow> (out @ stats @ smap, ProcessExit n)
                     | Throw err \<Rightarrow> (out @ stats @ smap, Throw err))
               else (out @ stats @ smap, Normal ()))))"

text \<open>
  \<open>err && !(err instanceof FatalError)\<close>: the error that is not a \<open>FatalError\<close>, if
  there is one.
\<close>

definition other_error :: "exn option \<Rightarrow> exn option" where
  "other_error err =
     (case err of None \<Rightarrow> None | Some x \<Rightarrow> if instanceof_FatalError x then None else Some x)"

text \<open>\<open>processSerializedCode(err, serialized)\<close>, with the diagnostics collected so far.\<close>

definition processSerializedCode ::
  "env \<Rightarrow> variables \<Rightarrow> store \<Rightarrow> exn option \<Rightarrow> SerializedResult option \<Rightarrow>
   event list \<times> unit completion" where
  "processSerializedCode e st errors err serialized =
     (case (case err of
              Some x \<Rightarrow>
                if instanceof_FatalError x
                then invariant (length errors > 0)
                       ''FatalError must generate at least one CompilerDiagnostic''
                else Normal ()
            | None \<Rightarrow> Normal ()) of
        Throw x \<Rightarrow> ([], Throw x)
      | ProcessExit n \<Rightarrow> ([], ProcessExit n)
      | Normal _ \<Rightarrow>
          (case other_error err of
             Some x \<Rightarrow> (snd (printDiagnostics errors) @ [ConsoleErrorValue x], ProcessExit 1)
           | None \<Rightarrow>
               (let (foundFatal, evs) = printDiagnostics errors in
                if foundFatal then (evs, ProcessExit 1)
                else (case serialized of
                        None \<Rightarrow> (evs, Normal ())
                      | Some s \<Rightarrow> (let (wevs, r) = write_serialized e st s
                                   in (evs @ wevs, r))))))"

section \<open>The execution dispatcher\<close>

text \<open>
  The \<open>finally\<close> block of lines 282 to 285. \<open>pending\<close> is how the run goes on when
  the block does not exit: what was being returned or thrown.
\<close>

definition finally_block :: "store \<Rightarrow> outcome \<Rightarrow> event list \<times> outcome" where
  "finally_block errors pending =
     (let (foundFatal, evs) = printDiagnostics errors
      in if foundFatal then (evs, Exit 1) else (evs, pending))"

text \<open>
  The \<open>catch\<close> block of lines 272 to 281 and the \<open>finally\<close> block after it. After a
  \<open>FatalError\<close> with diagnostics the run reaches \<open>return true\<close>.
\<close>

definition catch_block :: "store \<Rightarrow> exn \<Rightarrow> event list \<times> outcome" where
  "catch_block errors err =
     (if instanceof_FatalError err
      then (case invariant (length errors > 0)
                   ''FatalError must generate at least one CompilerDiagnostic'' of
              Normal _ \<Rightarrow> finally_block errors ReturnTrue
            | ProcessExit n \<Rightarrow> ([], Exit n)
            | Throw x \<Rightarrow> finally_block errors (Uncaught x))
      else (snd (printDiagnostics errors) @ [ConsoleErrorStack err], Exit 1))"

text \<open>File mode: \<open>prepackFileSync\<close>, then \<open>processSerializedCode(null, serialized)\<close>.\<close>

definition run_file :: "env \<Rightarrow> variables \<Rightarrow> options \<Rightarrow> event list \<times> outcome" where
  "run_file e st opts =
     (let (ds, res) = prepackFileSync e (inputFilenames st) opts;
          errors = report [] ds;
          call = CallPrepackFileSync (inputFilenames st) opts
      in case res of
           Throws err \<Rightarrow> (let (evs, out) = catch_block errors err in (call # evs, out))
         | Returns serialized \<Rightarrow>
             (case processSerializedCode e st errors None serialized of
                (evs, Normal _) \<Rightarrow>
                  (let (fevs, out) = finally_block errors ReturnTrue
                   in (call # evs @ fevs, out))
              | (evs, ProcessExit n) \<Rightarrow> (call # evs, Exit n)
              | (evs, Throw err) \<Rightarrow>
                  (let (cevs, out) = catch_block errors err in (call # evs @ cevs, out))))"

text \<open>
  Stream mode: \<open>prepackStdin\<close> and \<open>return\<close>, through the \<open>finally\<close> block; then,
  unless the process has exited, the engine calls \<open>processSerializedCode\<close>. An error
  thrown there goes back into the engine, which called.
\<close>

definition run_stdin :: "env \<Rightarrow> variables \<Rightarrow> options \<Rightarrow> event list \<times> outcome" where
  "run_stdin e st opts =
     (let b = prepackStdin e opts;
          errors = report [] (sync_diagnostics b);
          call = CallPrepackStdin opts
      in case sync_result b of
           Throws err \<Rightarrow> (let (evs, out) = catch_block errors err in (call # evs, out))
         | Returns _ \<Rightarrow>
             (case finally_block errors ReturnUndefined of
                (fevs, ReturnUndefined) \<Rightarrow>
                  (case processSerializedCode e st (report errors (async_diagnostics b))
                          (callback_err b) (callback_serialized b) of
                     (evs, Normal _) \<Rightarrow> (call # fevs @ evs, ReturnUndefined)
                   | (evs, ProcessExit n) \<Rightarrow> (call # fevs @ evs, Exit n)
                   | (evs, Throw err) \<Rightarrow> (call # fevs @ evs, Uncaught err))
              | (fevs, out) \<Rightarrow> (call # fevs, out)))"

text \<open>
  \<open>run\<close>, from \<open>process.argv\<close>: the first two entries are the program and its path.
\<close>

definition run :: "env \<Rightarrow> string list \<Rightarrow> event list \<times> outcome" where
  "run e argv =
     (case parse_args e (drop 2 argv) initial_variables of
        ParseStopped evs out \<Rightarrow> (evs, out)
      | Parsed parsed_st \<Rightarrow>
          (let st = parsed_st\<lparr>flags := resolve_modes (flags parsed_st)\<rparr>;
               opts = resolvedOptions st
           in if lazy_conflict st opts
              then ([ConsoleError ''lazy objects feature is incompatible with additionalFunctions, delayInitializations and inlineExpressions options''],
                    Exit 1)
              else if inputFilenames st = [] then run_stdin e st opts
              else run_file e st opts))"

section \<open>Notions of the specification, and example engines\<close>



text \<open>The engine \<open>e\<close>, except that it reports no diagnostic without a location.\<close>

definition located :: "CompilerDiagnostic list \<Rightarrow> CompilerDiagnostic list" where
  "located ds = filter (\<lambda>d. location d \<noteq> None) ds"

definition located_only :: "env \<Rightarrow> env" where
  "located_only e =
     e\<lparr>prepackFileSync :=
         (\<lambda>files opts. case prepackFileSync e files opts of (ds, res) \<Rightarrow> (located ds, res)),
       prepackStdin :=
         (\<lambda>opts. (prepackStdin e opts)
            \<lparr>sync_diagnostics := located (sync_diagnostics (prepackStdin e opts)),
             async_diagnostics := located (async_diagnostics (prepackStdin e opts))\<rparr>)\<rparr>"

text \<open>
  An engine that behaves the same on every input: in file mode it reports \<open>ds\<close> and
  ends with \<open>res\<close>, in stream mode it behaves as \<open>b\<close>.
\<close>

definition engine :: "CompilerDiagnostic list \<Rightarrow> SerializedResult option engine_result \<Rightarrow>
    stdin_behaviour \<Rightarrow> env" where
  "engine ds res b =
     \<lparr>CompatibilityValues = [''browser'', ''jsc-600-1-4-17'', ''node-source-maps'', ''node-cli''],
      version = ''0.2.0'', heapStatistics = Opaque ''heap'',
      prepackFileSync = (\<lambda>files opts. (ds, res)),
      prepackStdin = (\<lambda>opts. b)\<rparr>"

definition stream :: "CompilerDiagnostic list \<Rightarrow> exn option \<Rightarrow> SerializedResult option \<Rightarrow>
    stdin_behaviour" where
  "stream ds err serialized =
     \<lparr>sync_diagnostics = [], sync_result = Returns (), async_diagnostics = ds,
      callback_err = err, callback_serialized = serialized\<rparr>"

definition example_location :: source_location where
  "example_location = \<lparr>loc_id = 1, source = Some ''a.js'', start_line = 3, start_column = 4\<rparr>"

definition example_warning :: CompilerDiagnostic where
  "example_warning =
     \<lparr>location = Some example_location, severity = ''Warning'', errorCode = ''PP0001'',
      message = ''first'', callStack = None\<rparr>"

definition example_fatal :: CompilerDiagnostic where
  "example_fatal =
     \<lparr>location = Some example_location, severity = ''FatalError'', errorCode = ''PP0002'',
      message = ''second'', callStack = None\<rparr>"

definition example_unlocated :: CompilerDiagnostic where
  "example_unlocated =
     \<lparr>location = None, severity = ''FatalError'', errorCode = ''PP0003'',
      message = ''nowhere'', callStack = None\<rparr>"

definition example_result :: "string \<Rightarrow> SerializedResult" where
  "example_result text =
     \<lparr>code = text, statistics = None, timingStats = None, srcmap = None, heapGraph = None\<rparr>"

text \<open>Kinds of events, and a store that holds a diagnostic of fatal severity.\<close>

definition is_engine_call :: "event \<Rightarrow> bool" where
  "is_engine_call ev =
     (case ev of CallPrepackStdin opts \<Rightarrow> True | CallPrepackFileSync files opts \<Rightarrow> True
      | _ \<Rightarrow> False)"

definition is_write :: "event \<Rightarrow> bool" where
  "is_write ev = (case ev of WriteFileSync f d \<Rightarrow> True | _ \<Rightarrow> False)"

definition has_fatal :: "store \<Rightarrow> bool" where
  "has_fatal errors = list_ex (\<lambda>(loc, error). severity error = ''FatalError'') errors"

section \<open>Properties\<close>

subsection \<open>Run modes\<close>

text \<open>
  C2, as amended. The resolver keeps \<open>check\<close>. In check mode \<open>serialize\<close> and
  \<open>residual\<close> are both false. Otherwise at least one of them is true: both, when the
  command line gave both toggles, and exactly one in every other case.
\<close>

theorem resolve_modes_invariant:
  "(let r = resolve_modes fl in
      check r = check fl \<and>
      (if check fl then \<not> serialize r \<and> \<not> residual r
       else (serialize r \<or> residual r) \<and>
            (if serialize fl \<and> residual fl then serialize r \<and> residual r
             else serialize r \<noteq> residual r)))"
  by (auto simp add: resolve_modes_def Let_def)

text \<open>
  C2 as stated fails: with \<open>--serialize --residual\<close> and no \<open>--check\<close>, both modes are
  true in the resolved flags.
\<close>

theorem both_modes_counterexample:
  "serialize (resolve_modes (set_flag ''residual'' (set_flag ''serialize'' initial_flags))) \<and>
   residual (resolve_modes (set_flag ''residual'' (set_flag ''serialize'' initial_flags))) \<and>
   \<not> check (resolve_modes (set_flag ''residual'' (set_flag ''serialize'' initial_flags)))"
  by (simp add: resolve_modes_def set_flag_def initial_flags_def)

subsection \<open>A value option as the last argument\<close>

text \<open>
  C10. From every state of the parser, when the only argument left is a value option,
  \<open>args.shift()\<close> gives \<open>undefined\<close>: a plain string option ends the parse with its
  variable \<open>undefined\<close> and nothing printed; \<open>additionalFunctions\<close> ends the run with
  an uncaught \<open>TypeError\<close> and nothing printed. The three checked options reject
  \<open>undefined\<close> with the message they have for any bad value.
\<close>

theorem value_option_last:
  "parse_args e [''--out''] st = Parsed (st\<lparr>outputFilename := None\<rparr>) \<and>
   parse_args e [''--mathRandomSeed''] st = Parsed (st\<lparr>mathRandomSeed := None\<rparr>) \<and>
   parse_args e [''--srcmapIn''] st = Parsed (st\<lparr>inputSourceMap := None\<rparr>) \<and>
   parse_args e [''--srcmapOut''] st = Parsed (st\<lparr>outputSourceMap := None\<rparr>) \<and>
   parse_args e [''--statsFile''] st = Parsed (st\<lparr>statsFileName := None\<rparr>) \<and>
   parse_args e [''--debugInFilePath''] st = Parsed (st\<lparr>debugInFilePath := None\<rparr>) \<and>
   parse_args e [''--debugOutFilePath''] st = Parsed (st\<lparr>debugOutFilePath := None\<rparr>) \<and>
   parse_args e [''--lazyObjectsRuntime''] st = Parsed (st\<lparr>lazyObjectsRuntime := None\<rparr>) \<and>
   parse_args e [''--heapGraphFilePath''] st = Parsed (st\<lparr>heapGraphFilePath := None\<rparr>) \<and>
   parse_args e [''--additionalFunctions''] st = ParseStopped [] (Uncaught TypeError) \<and>
   parse_args e [''--compatibility''] st =
     ParseStopped [ConsoleError ''Unsupported compatibility: undefined''] (Exit 1) \<and>
   parse_args e [''--maxStackDepth''] st =
     ParseStopped [ConsoleError ''Stack depth value must be a number''] (Exit 1) \<and>
   parse_args e [''--timeout''] st =
     ParseStopped [ConsoleError ''Timeout must be a number''] (Exit 1)"
  by (simp add: parse_option_def startsWith_def shift_def array_includes_def isNaN_def
      template_def)

subsection \<open>Numeric options\<close>
















subsection \<open>Diagnostics without a location\<close>

lemma errorHandler_unlocated: "location d = None \<Longrightarrow> errorHandler errors d = (''Recover'', errors)"
  by (simp add: errorHandler_def)

lemma report_append: "report errors (ds @ ds') = report (report errors ds) ds'"
  by (simp add: report_def)

lemma report_Cons: "report errors (d # ds) = report (snd (errorHandler errors d)) ds"
  by (simp add: report_def)

lemma report_Nil: "report errors [] = errors"
  by (simp add: report_def)

lemma report_located: "report errors (located ds) = report errors ds"
proof (induction ds arbitrary: errors)
  case Nil
  show ?case by (simp add: located_def)
next
  case (Cons d ds)
  have step: "report errors (located ds) = report errors ds" for errors
    using Cons.IH .
  show ?case
  proof (cases "location d")
    case None
    then have "located (d # ds) = located ds" by (simp add: located_def)
    with None show ?thesis by (simp add: report_Cons errorHandler_unlocated step)
  next
    case (Some loc)
    then have "located (d # ds) = d # located ds" by (simp add: located_def)
    then show ?thesis by (simp add: report_Cons step)
  qed
qed

lemma parse_option_located_only: "parse_option (located_only e) arg v st = parse_option e arg v st"
  by (simp add: parse_option_def located_only_def)

lemma parse_args_located_only: "parse_args (located_only e) args st = parse_args e args st"
  by (induction e args st rule: parse_args.induct)
     (simp_all add: parse_option_located_only split: step.splits)

lemma write_serialized_located_only:
  "write_serialized (located_only e) st s = write_serialized e st s"
proof -
  have hs: "heapStatistics (located_only e) = heapStatistics e"
    by (simp add: located_only_def)
  show ?thesis unfolding write_serialized_def hs by (rule refl)
qed

lemma processSerializedCode_located_only:
  "processSerializedCode (located_only e) st errors err s = processSerializedCode e st errors err s"
  unfolding processSerializedCode_def write_serialized_located_only by (rule refl)

lemma run_file_located_only: "run_file (located_only e) st opts = run_file e st opts"
proof -
  obtain ds res where r: "prepackFileSync e (inputFilenames st) opts = (ds, res)"
    by (cases "prepackFileSync e (inputFilenames st) opts")
  then have r': "prepackFileSync (located_only e) (inputFilenames st) opts = (located ds, res)"
    by (simp add: located_only_def)
  show ?thesis
    unfolding run_file_def r r' Let_def prod.case report_located
      processSerializedCode_located_only
    by (rule refl)
qed

lemma run_stdin_located_only: "run_stdin (located_only e) st opts = run_stdin e st opts"
proof -
  define b where "b = prepackStdin e opts"
  define b' where "b' = prepackStdin (located_only e) opts"
  have sel: "sync_diagnostics b' = located (sync_diagnostics b)"
    "async_diagnostics b' = located (async_diagnostics b)"
    "sync_result b' = sync_result b" "callback_err b' = callback_err b"
    "callback_serialized b' = callback_serialized b"
    by (simp_all add: b_def b'_def located_only_def)
  show ?thesis
    unfolding run_stdin_def Let_def b_def [symmetric] b'_def [symmetric] sel report_located
      processSerializedCode_located_only
    by (rule refl)
qed

lemma run_located_only: "run (located_only e) argv = run e argv"
  unfolding run_def parse_args_located_only run_file_located_only run_stdin_located_only
  by (rule refl)

text \<open>
  C9. A diagnostic without a location leaves the store as it was, and the handler
  answers \<open>Recover\<close>. So the store after any sequence of reports, and what
  \<open>printDiagnostics\<close> prints and finds, are the same with and without it; and every
  run is the run of the engine that never reports such a diagnostic: same events, same
  exit.
\<close>

theorem unlocated_discarded:
  "location d = None \<Longrightarrow>
   errorHandler errors d = (''Recover'', errors) \<and>
   report errors (ds @ d # ds') = report errors (ds @ ds') \<and>
   printDiagnostics (report errors (ds @ d # ds')) = printDiagnostics (report errors (ds @ ds')) \<and>
   run (located_only e) argv = run e argv"
  by (simp add: errorHandler_unlocated report_append report_Cons run_located_only)

theorem unlocated_discarded_witness:
  "location example_unlocated = None \<and>
   errorHandler [(example_location, example_warning)] example_unlocated =
     (''Recover'', [(example_location, example_warning)]) \<and>
   report [] ([example_warning] @ example_unlocated # []) =
     [(example_location, example_warning)] \<and>
   fst (printDiagnostics (report [] ([example_warning] @ example_unlocated # []))) = False"
  using unlocated_discarded [of example_unlocated "[(example_location, example_warning)]"
      "[example_warning]" "[]"]
    unlocated_discarded [of example_unlocated "[]" "[example_warning]" "[]"]
  by (simp add: example_unlocated_def report_def errorHandler_def example_warning_def
      printDiagnostics_def print_entry_def)

subsection \<open>The lazy-objects conflict\<close>

text \<open>
  C6. When the arguments parse, and the resolved options have a lazy-objects runtime
  name (a truthy one: defined and not the empty string) together with
  \<open>additionalFunctions\<close>, \<open>delayInitializations\<close> or \<open>inlineExpressions\<close>, the run
  prints the conflict message and exits with status 1. That line is all the run does:
  no entry point of the engine is called.
\<close>

theorem lazy_conflict_exits:
  assumes "parse_args e (drop 2 argv) initial_variables = Parsed st"
    and "opts = resolvedOptions (st\<lparr>flags := resolve_modes (flags st)\<rparr>)"
    and "truthy (lazyObjectsRuntime opts)"
    and "additionalFunctions opts \<noteq> None \<or> delayInitializations (flags opts) \<or>
         inlineExpressions (flags opts)"
  shows "run e argv =
     ([ConsoleError ''lazy objects feature is incompatible with additionalFunctions, delayInitializations and inlineExpressions options''],
      Exit 1) \<and>
     filter is_engine_call (fst (run e argv)) = []"
proof -
  have "lazy_conflict (st\<lparr>flags := resolve_modes (flags st)\<rparr>) opts"
    using assms(2-4) by (auto simp add: lazy_conflict_def resolvedOptions_def)
  with assms(1,2) show ?thesis by (simp add: run_def is_engine_call_def)
qed

theorem lazy_conflict_exits_witness:
  "run (engine [] (Returns None) (stream [] None None))
     [''node'', ''prepack.js'', ''--lazyObjectsRuntime'', ''X'', ''--additionalFunctions'', ''a,b''] =
     ([ConsoleError ''lazy objects feature is incompatible with additionalFunctions, delayInitializations and inlineExpressions options''],
      Exit 1) \<and>
   filter is_engine_call
     (fst (run (engine [] (Returns None) (stream [] None None))
        [''node'', ''prepack.js'', ''--lazyObjectsRuntime'', ''X'', ''--additionalFunctions'', ''a,b''])) = []"
  by (rule lazy_conflict_exits
       [where st = "initial_variables\<lparr>lazyObjectsRuntime := Some ''X'',
                      additionalFunctions := Some [''a'', ''b'']\<rparr>"
        and opts = "resolvedOptions (initial_variables\<lparr>lazyObjectsRuntime := Some ''X'',
                      additionalFunctions := Some [''a'', ''b''],
                      flags := resolve_modes initial_flags\<rparr>)"])
     (simp_all add: parse_option_def startsWith_def shift_def initial_variables_def
        resolvedOptions_def truthy_def)

subsection \<open>Two diagnostics at one location\<close>















subsection \<open>What is printed, found and written\<close>

lemma print_entry_no_write: "filter is_write (snd (print_entry b loc error)) = []"
  by (simp add: print_entry_def is_write_def Let_def)

lemma print_entries_step:
  "print_entries b ((loc, error) # rest) =
     (fst (print_entries (fst (print_entry b loc error)) rest),
      snd (print_entry b loc error) @ snd (print_entries (fst (print_entry b loc error)) rest))"
  by (simp add: case_prod_beta)

lemma print_entries_no_write: "filter is_write (snd (print_entries b m)) = []"
proof (induction m arbitrary: b)
  case Nil
  show ?case by simp
next
  case (Cons a m)
  obtain loc error where "a = (loc, error)" by (cases a)
  with Cons show ?case
    by (simp add: print_entries_step print_entry_no_write del: print_entries.simps)
qed

lemma printDiagnostics_Nil: "printDiagnostics [] = (False, [])"
  by (simp add: printDiagnostics_def)

lemma printDiagnostics_no_write: "filter is_write (snd (printDiagnostics m)) = []"
  by (simp add: printDiagnostics_def print_entries_no_write is_write_def case_prod_beta)

lemma print_entries_found: "fst (print_entries b m) = (b \<or> has_fatal m)"
proof (induction m arbitrary: b)
  case Nil
  show ?case by (simp add: has_fatal_def)
next
  case (Cons a m)
  obtain loc error where "a = (loc, error)" by (cases a)
  with Cons show ?case
    by (simp add: print_entries_step print_entry_def has_fatal_def Let_def del: print_entries.simps)
qed

lemma printDiagnostics_found: "fst (printDiagnostics m) = has_fatal m"
  by (cases m) (simp_all add: printDiagnostics_def print_entries_found has_fatal_def case_prod_beta)

lemma finally_block_eq:
  "finally_block errors pending =
     (snd (printDiagnostics errors), if has_fatal errors then Exit 1 else pending)"
  by (simp add: finally_block_def printDiagnostics_found [symmetric] case_prod_beta)

lemma write_empty:
  "code s = '''' \<Longrightarrow> write_serialized e st s = ([ConsoleError ''Prepack returned empty code.''], Normal ())"
  by (simp add: write_serialized_def)

lemma process_empty:
  assumes "code s = ''''"
  shows "processSerializedCode e st errors err (Some s) =
     (if err = Some FatalError \<and> errors = []
      then ([], Throw (InvariantViolation ''FatalError must generate at least one CompilerDiagnostic''))
      else case other_error err of
             Some x \<Rightarrow> (snd (printDiagnostics errors) @ [ConsoleErrorValue x], ProcessExit 1)
           | None \<Rightarrow>
               if has_fatal errors then (snd (printDiagnostics errors), ProcessExit 1)
               else (snd (printDiagnostics errors) @ [ConsoleError ''Prepack returned empty code.''],
                     Normal ()))"
  unfolding processSerializedCode_def
  by (cases err)
     (simp_all add: other_error_def invariant_def instanceof_FatalError_def
        printDiagnostics_found [symmetric] case_prod_beta write_empty [OF assms])

subsection \<open>Empty output\<close>

text \<open>
  C8. Let the result have the empty string as its code. The writer then prints
  \<open>Prepack returned empty code.\<close> and returns; in no case does
  \<open>processSerializedCode\<close> write a file. When nothing else ends the run first (no
  error that is not a \<open>FatalError\<close>, no failed invariant, no diagnostic of fatal
  severity), \<open>processSerializedCode\<close> prints the diagnostics and that message and
  returns; the run in file mode then returns \<open>true\<close>, the run in stream mode
  \<open>undefined\<close>: exit status 0.
\<close>

theorem empty_code_reported:
  assumes "code s = ''''"
  shows "write_serialized e st s =
       ([ConsoleError ''Prepack returned empty code.''], Normal ()) \<and>
     filter is_write (fst (processSerializedCode e st errors err (Some s))) = [] \<and>
     (\<not> has_fatal errors \<and> other_error err = None \<and> (err = None \<or> errors \<noteq> []) \<longrightarrow>
        processSerializedCode e st errors err (Some s) =
          (snd (printDiagnostics errors) @ [ConsoleError ''Prepack returned empty code.''],
           Normal ())) \<and>
     (prepackFileSync e (inputFilenames st) opts = (ds, Returns (Some s)) \<and>
      \<not> has_fatal (report [] ds) \<longrightarrow>
        run_file e st opts =
          (CallPrepackFileSync (inputFilenames st) opts #
           snd (printDiagnostics (report [] ds)) @
           [ConsoleError ''Prepack returned empty code.''] @
           snd (printDiagnostics (report [] ds)),
           ReturnTrue)) \<and>
     (sync_result (prepackStdin e opts) = Returns () \<and>
      callback_err (prepackStdin e opts) = None \<and>
      callback_serialized (prepackStdin e opts) = Some s \<and>
      \<not> has_fatal (report [] (sync_diagnostics (prepackStdin e opts))) \<and>
      \<not> has_fatal (report (report [] (sync_diagnostics (prepackStdin e opts)))
                     (async_diagnostics (prepackStdin e opts))) \<longrightarrow>
        run_stdin e st opts =
          (CallPrepackStdin opts #
           snd (printDiagnostics (report [] (sync_diagnostics (prepackStdin e opts)))) @
           snd (printDiagnostics (report (report [] (sync_diagnostics (prepackStdin e opts)))
                     (async_diagnostics (prepackStdin e opts)))) @
           [ConsoleError ''Prepack returned empty code.''],
           ReturnUndefined))"
proof -
  have w: "filter is_write (fst (processSerializedCode e st errors err (Some s))) = []"
    by (simp add: process_empty [OF assms] printDiagnostics_no_write is_write_def
        split: option.splits)
  have p: "\<not> has_fatal errors \<and> other_error err = None \<and> (err = None \<or> errors \<noteq> []) \<longrightarrow>
        processSerializedCode e st errors err (Some s) =
          (snd (printDiagnostics errors) @ [ConsoleError ''Prepack returned empty code.''],
           Normal ())"
    by (auto simp add: process_empty [OF assms])
  have f: "prepackFileSync e (inputFilenames st) opts = (ds, Returns (Some s)) \<and>
      \<not> has_fatal (report [] ds) \<longrightarrow>
        run_file e st opts =
          (CallPrepackFileSync (inputFilenames st) opts #
           snd (printDiagnostics (report [] ds)) @
           [ConsoleError ''Prepack returned empty code.''] @
           snd (printDiagnostics (report [] ds)),
           ReturnTrue)"
    by (simp add: run_file_def process_empty [OF assms] finally_block_eq other_error_def Let_def)
  have g: "sync_result (prepackStdin e opts) = Returns () \<and>
      callback_err (prepackStdin e opts) = None \<and>
      callback_serialized (prepackStdin e opts) = Some s \<and>
      \<not> has_fatal (report [] (sync_diagnostics (prepackStdin e opts))) \<and>
      \<not> has_fatal (report (report [] (sync_diagnostics (prepackStdin e opts)))
                     (async_diagnostics (prepackStdin e opts))) \<longrightarrow>
        run_stdin e st opts =
          (CallPrepackStdin opts #
           snd (printDiagnostics (report [] (sync_diagnostics (prepackStdin e opts)))) @
           snd (printDiagnostics (report (report [] (sync_diagnostics (prepackStdin e opts)))
                     (async_diagnostics (prepackStdin e opts)))) @
           [ConsoleError ''Prepack returned empty code.''],
           ReturnUndefined)"
    by (simp add: run_stdin_def process_empty [OF assms] finally_block_eq other_error_def Let_def)
  from write_empty [OF assms] w p f g show ?thesis by blast
qed

theorem empty_code_reported_witness:
  "code (example_result '''') = '''' \<and>
   run_file (engine [example_warning] (Returns (Some (example_result ''''))) (stream [] None None))
     (initial_variables\<lparr>inputFilenames := [''a.js'']\<rparr>)
     (resolvedOptions (initial_variables\<lparr>inputFilenames := [''a.js'']\<rparr>)) =
     (CallPrepackFileSync [''a.js''] (resolvedOptions (initial_variables\<lparr>inputFilenames := [''a.js'']\<rparr>)) #
      snd (printDiagnostics [(example_location, example_warning)]) @
      [ConsoleError ''Prepack returned empty code.''] @
      snd (printDiagnostics [(example_location, example_warning)]),
      ReturnTrue) \<and>
   run_stdin (engine [] (Returns None) (stream [example_warning] None (Some (example_result ''''))))
     initial_variables (resolvedOptions initial_variables) =
     (CallPrepackStdin (resolvedOptions initial_variables) #
      snd (printDiagnostics [(example_location, example_warning)]) @
      [ConsoleError ''Prepack returned empty code.''],
      ReturnUndefined)"
proof -
  have c: "code (example_result '''') = ''''" by (simp add: example_result_def)
  have r: "report [] [example_warning] = [(example_location, example_warning)]"
    by (simp add: report_def errorHandler_def example_warning_def)
  have nf: "\<not> has_fatal [(example_location, example_warning)]"
    by (simp add: has_fatal_def example_warning_def)
  have nf0: "\<not> has_fatal []" by (simp add: has_fatal_def)
  from empty_code_reported [OF c, of "engine [example_warning] (Returns (Some (example_result ''''))) (stream [] None None)"
      "initial_variables\<lparr>inputFilenames := [''a.js'']\<rparr>" "[]" None
      "resolvedOptions (initial_variables\<lparr>inputFilenames := [''a.js'']\<rparr>)" "[example_warning]"]
  have 1: "run_file (engine [example_warning] (Returns (Some (example_result ''''))) (stream [] None None))
     (initial_variables\<lparr>inputFilenames := [''a.js'']\<rparr>)
     (resolvedOptions (initial_variables\<lparr>inputFilenames := [''a.js'']\<rparr>)) =
     (CallPrepackFileSync [''a.js''] (resolvedOptions (initial_variables\<lparr>inputFilenames := [''a.js'']\<rparr>)) #
      snd (printDiagnostics [(example_location, example_warning)]) @
      [ConsoleError ''Prepack returned empty code.''] @
      snd (printDiagnostics [(example_location, example_warning)]),
      ReturnTrue)"
    by (simp add: engine_def r nf)
  from empty_code_reported [OF c, of "engine [] (Returns None) (stream [example_warning] None (Some (example_result '''')))"
      initial_variables "[]" None "resolvedOptions initial_variables" "[]"]
  have 2: "run_stdin (engine [] (Returns None) (stream [example_warning] None (Some (example_result ''''))))
     initial_variables (resolvedOptions initial_variables) =
     (CallPrepackStdin (resolvedOptions initial_variables) #
      snd (printDiagnostics [(example_location, example_warning)]) @
      [ConsoleError ''Prepack returned empty code.''],
      ReturnUndefined)"
    by (simp add: engine_def stream_def r nf nf0 report_Nil printDiagnostics_Nil)
  from c 1 2 show ?thesis by simp
qed

subsection \<open>A \<open>FatalError\<close> without diagnostics\<close>

lemma map_set_not_Nil: "map_set k v m \<noteq> []"
  by (cases m) (auto split: if_splits)

lemma errorHandler_Nil: "snd (errorHandler m d) = [] \<Longrightarrow> m = []"
  by (simp add: errorHandler_def map_set_not_Nil split: option.splits)

lemma report_Nil_start: "report m ds = [] \<Longrightarrow> m = []"
proof (induction ds arbitrary: m)
  case Nil
  then show ?case by (simp add: report_def)
next
  case (Cons d ds)
  from Cons.prems have "report (snd (errorHandler m d)) ds = []" by (simp add: report_def)
  then have "snd (errorHandler m d) = []" by (rule Cons.IH)
  then show ?case by (rule errorHandler_Nil)
qed

lemma catch_block_fatal:
  "catch_block errors FatalError =
     (if errors = []
      then ([], Uncaught (InvariantViolation
                 ''FatalError must generate at least one CompilerDiagnostic''))
      else (snd (printDiagnostics errors), if has_fatal errors then Exit 1 else ReturnTrue))"
  by (simp add: catch_block_def instanceof_FatalError_def invariant_def finally_block_eq
      printDiagnostics_Nil has_fatal_def)

lemma process_fatal_empty:
  "processSerializedCode e st [] (Some FatalError) s =
     ([], Throw (InvariantViolation ''FatalError must generate at least one CompilerDiagnostic''))"
  by (simp add: processSerializedCode_def other_error_def instanceof_FatalError_def invariant_def)

lemma process_fatal_nonempty:
  "errors \<noteq> [] \<Longrightarrow>
   snd (processSerializedCode e st errors (Some FatalError) s) \<noteq>
     Throw (InvariantViolation ''FatalError must generate at least one CompilerDiagnostic'')"
  by (simp add: processSerializedCode_def other_error_def instanceof_FatalError_def invariant_def
      write_serialized_def case_prod_beta Let_def split: option.splits)

text \<open>
  C5. When the engine raises a \<open>FatalError\<close> (thrown by \<open>prepackFileSync\<close>, thrown
  by \<open>prepackStdin\<close>, or handed to the continuation) and the store is empty, the run
  ends with the uncaught error of the failed invariant, its message naming the
  \<open>FatalError\<close>, and has done nothing but call the engine. When the store is not
  empty, the run does not end that way.
\<close>

theorem fatal_error_invariant:
  "(prepackFileSync e (inputFilenames st) opts = (ds, Throws FatalError) \<longrightarrow>
      (if report [] ds = []
       then run_file e st opts =
              ([CallPrepackFileSync (inputFilenames st) opts],
               Uncaught (InvariantViolation
                 ''FatalError must generate at least one CompilerDiagnostic''))
       else snd (run_file e st opts) \<noteq>
              Uncaught (InvariantViolation
                 ''FatalError must generate at least one CompilerDiagnostic''))) \<and>
   (sync_result (prepackStdin e opts) = Throws FatalError \<longrightarrow>
      (if report [] (sync_diagnostics (prepackStdin e opts)) = []
       then run_stdin e st opts =
              ([CallPrepackStdin opts],
               Uncaught (InvariantViolation
                 ''FatalError must generate at least one CompilerDiagnostic''))
       else snd (run_stdin e st opts) \<noteq>
              Uncaught (InvariantViolation
                 ''FatalError must generate at least one CompilerDiagnostic''))) \<and>
   (sync_result (prepackStdin e opts) = Returns () \<and>
    callback_err (prepackStdin e opts) = Some FatalError \<longrightarrow>
      (if report (report [] (sync_diagnostics (prepackStdin e opts)))
            (async_diagnostics (prepackStdin e opts)) = []
       then run_stdin e st opts =
              ([CallPrepackStdin opts],
               Uncaught (InvariantViolation
                 ''FatalError must generate at least one CompilerDiagnostic''))
       else snd (run_stdin e st opts) \<noteq>
              Uncaught (InvariantViolation
                 ''FatalError must generate at least one CompilerDiagnostic'')))"
proof -
  let ?msg = "''FatalError must generate at least one CompilerDiagnostic''"
  have in_file: "prepackFileSync e (inputFilenames st) opts = (ds, Throws FatalError) \<longrightarrow>
      (if report [] ds = []
       then run_file e st opts =
              ([CallPrepackFileSync (inputFilenames st) opts], Uncaught (InvariantViolation ?msg))
       else snd (run_file e st opts) \<noteq> Uncaught (InvariantViolation ?msg))"
    by (simp add: run_file_def catch_block_fatal Let_def)
  have in_sync: "sync_result (prepackStdin e opts) = Throws FatalError \<longrightarrow>
      (if report [] (sync_diagnostics (prepackStdin e opts)) = []
       then run_stdin e st opts =
              ([CallPrepackStdin opts], Uncaught (InvariantViolation ?msg))
       else snd (run_stdin e st opts) \<noteq> Uncaught (InvariantViolation ?msg))"
    by (simp add: run_stdin_def catch_block_fatal Let_def)
  have in_async: "sync_result (prepackStdin e opts) = Returns () \<and>
    callback_err (prepackStdin e opts) = Some FatalError \<longrightarrow>
      (if report (report [] (sync_diagnostics (prepackStdin e opts)))
            (async_diagnostics (prepackStdin e opts)) = []
       then run_stdin e st opts =
              ([CallPrepackStdin opts], Uncaught (InvariantViolation ?msg))
       else snd (run_stdin e st opts) \<noteq> Uncaught (InvariantViolation ?msg))"
  proof (intro impI, elim conjE)
    let ?b = "prepackStdin e opts"
    let ?m1 = "report [] (sync_diagnostics ?b)"
    let ?m2 = "report ?m1 (async_diagnostics ?b)"
    assume r: "sync_result ?b = Returns ()" and c: "callback_err ?b = Some FatalError"
    show "if ?m2 = []
       then run_stdin e st opts = ([CallPrepackStdin opts], Uncaught (InvariantViolation ?msg))
       else snd (run_stdin e st opts) \<noteq> Uncaught (InvariantViolation ?msg)"
    proof (cases "?m2 = []")
      case True
      then have m1: "?m1 = []" by (rule report_Nil_start)
      have "run_stdin e st opts = ([CallPrepackStdin opts], Uncaught (InvariantViolation ?msg))"
        using True
        by (simp add: run_stdin_def Let_def r c m1 finally_block_eq printDiagnostics_Nil
            has_fatal_def process_fatal_empty)
      with True show ?thesis by simp
    next
      case False
      from process_fatal_nonempty [OF False]
      have n: "snd (processSerializedCode e st ?m2 (Some FatalError) (callback_serialized ?b)) \<noteq>
          Throw (InvariantViolation ?msg)" .
      have "snd (run_stdin e st opts) \<noteq> Uncaught (InvariantViolation ?msg)"
        using n
        by (auto simp add: run_stdin_def Let_def r c finally_block_eq case_prod_beta
            split: completion.splits)
      with False show ?thesis by simp
    qed
  qed
  from in_file in_sync in_async show ?thesis by blast
qed

theorem fatal_error_invariant_witness:
  "run_file (engine [example_unlocated] (Throws FatalError) (stream [] None None))
     (initial_variables\<lparr>inputFilenames := [''a.js'']\<rparr>)
     (resolvedOptions (initial_variables\<lparr>inputFilenames := [''a.js'']\<rparr>)) =
     ([CallPrepackFileSync [''a.js'']
         (resolvedOptions (initial_variables\<lparr>inputFilenames := [''a.js'']\<rparr>))],
      Uncaught (InvariantViolation ''FatalError must generate at least one CompilerDiagnostic'')) \<and>
   run_stdin (engine [] (Returns None) (stream [example_unlocated] (Some FatalError) None))
     initial_variables (resolvedOptions initial_variables) =
     ([CallPrepackStdin (resolvedOptions initial_variables)],
      Uncaught (InvariantViolation ''FatalError must generate at least one CompilerDiagnostic'')) \<and>
   snd (run_stdin (engine [] (Returns None) (stream [example_fatal] (Some FatalError) None))
     initial_variables (resolvedOptions initial_variables)) = Exit 1"
proof -
  have r: "report [] [example_unlocated] = []"
    by (simp add: report_def errorHandler_def example_unlocated_def)
  from fatal_error_invariant [of "engine [example_unlocated] (Throws FatalError) (stream [] None None)"
      "initial_variables\<lparr>inputFilenames := [''a.js'']\<rparr>"
      "resolvedOptions (initial_variables\<lparr>inputFilenames := [''a.js'']\<rparr>)" "[example_unlocated]"]
  have 1: "run_file (engine [example_unlocated] (Throws FatalError) (stream [] None None))
     (initial_variables\<lparr>inputFilenames := [''a.js'']\<rparr>)
     (resolvedOptions (initial_variables\<lparr>inputFilenames := [''a.js'']\<rparr>)) =
     ([CallPrepackFileSync [''a.js'']
         (resolvedOptions (initial_variables\<lparr>inputFilenames := [''a.js'']\<rparr>))],
      Uncaught (InvariantViolation ''FatalError must generate at least one CompilerDiagnostic''))"
    by (simp add: engine_def r)
  from fatal_error_invariant [of "engine [] (Returns None) (stream [example_unlocated] (Some FatalError) None)"
      initial_variables "resolvedOptions initial_variables" "[]"]
  have 2: "run_stdin (engine [] (Returns None) (stream [example_unlocated] (Some FatalError) None))
     initial_variables (resolvedOptions initial_variables) =
     ([CallPrepackStdin (resolvedOptions initial_variables)],
      Uncaught (InvariantViolation ''FatalError must generate at least one CompilerDiagnostic''))"
    by (simp add: engine_def stream_def r report_Nil)
  have 3: "snd (run_stdin (engine [] (Returns None) (stream [example_fatal] (Some FatalError) None))
     initial_variables (resolvedOptions initial_variables)) = Exit 1"
    by code_simp
  from 1 2 3 show ?thesis by simp
qed

subsection \<open>How often the diagnostics are printed\<close>

text \<open>
  C1 does not hold of the code. In file mode, with a result and one warning, the
  listing of the diagnostics is printed twice: by \<open>processSerializedCode\<close> and again
  by the \<open>finally\<close> block.
\<close>

theorem diagnostics_printed_twice:
  "filter (\<lambda>ev. \<not> is_engine_call ev)
     (fst (run (engine [example_warning] (Returns (Some (example_result ''x''))) (stream [] None None))
        [''node'', ''prepack.js'', ''a.js''])) =
   [ConsoleError ''Errors found while prepacking'',
    ConsoleError ''In input file a.js(3:5) Warning PP0001: first (https://github.com/facebook/prepack/wiki/PP0001)'',
    ConsoleLog ''x'',
    ConsoleError ''Errors found while prepacking'',
    ConsoleError ''In input file a.js(3:5) Warning PP0001: first (https://github.com/facebook/prepack/wiki/PP0001)''] \<and>
   snd (run (engine [example_warning] (Returns (Some (example_result ''x''))) (stream [] None None))
        [''node'', ''prepack.js'', ''a.js'']) = ReturnTrue"
  by code_simp

subsection \<open>Statistics that are absent\<close>

text \<open>
  C3 does not hold of the code. With a statistics file asked for and no statistics
  in the result, the early \<open>return\<close> of line 314 also skips the source map and the
  heap graph: the run only prints the code. Without \<open>--statsFile\<close> the same run
  writes both files.
\<close>

theorem missing_statistics_skips_outputs:
  "filter (\<lambda>ev. \<not> is_engine_call ev)
     (fst (run (engine [] (Returns (Some ((example_result ''x'')\<lparr>heapGraph := Some ''digraph''\<rparr>)))
                 (stream [] None None))
        [''node'', ''prepack.js'', ''a.js'', ''--statsFile'', ''stats.json'',
         ''--srcmapOut'', ''out.map'', ''--heapGraphFilePath'', ''heap.dot''])) =
     [ConsoleLog ''x''] \<and>
   filter (\<lambda>ev. \<not> is_engine_call ev)
     (fst (run (engine [] (Returns (Some ((example_result ''x'')\<lparr>heapGraph := Some ''digraph''\<rparr>)))
                 (stream [] None None))
        [''node'', ''prepack.js'', ''a.js'',
         ''--srcmapOut'', ''out.map'', ''--heapGraphFilePath'', ''heap.dot''])) =
     [ConsoleLog ''x'', WriteFileSync ''out.map'' (Text ''''),
      WriteFileSync ''heap.dot'' (Text ''digraph'')]"
  by code_simp

end
